theory Spec2Isabelle
  imports Main
begin

section \<open>Python values\<close>

text \<open>
  The widget is dynamically typed: every attribute of a Label and every value of a
  keyword mapping is an arbitrary Python value. The objects of the rendering library
  are kept symbolic: \<open>Color v\<close> is the object \<^verbatim>\<open>pygame.Color(v)\<close>, \<open>SysFont f s\<close> the object
  \<^verbatim>\<open>pygame.font.SysFont(f, s)\<close>, \<open>Font n\<close> and \<open>Surface n\<close> are font and bitmap handles made
  elsewhere. Of the rendering library's own failures the model covers those of the text
  render, whose outcome is a parameter of the draw routine; the colour and font
  constructors, the rectangle primitive and blit are taken to return.
\<close>

datatype pyval =
    PNone
  | PBool bool
  | PInt int
  | PStr string
  | PTuple "pyval list"
  | PDict "(string \<times> pyval) list"
  | Color pyval
  | SysFont pyval pyval
  | Font nat
  | Surface nat
  | Rect int int int int

datatype error = KeyError | TypeError | AttributeError | ValueError

text \<open>Subscription \<^verbatim>\<open>d[k]\<close> with a string key: only a dict has one.\<close>

fun getitem :: "pyval \<Rightarrow> string \<Rightarrow> error + pyval" where
  "getitem (PDict kvs) k = (case map_of kvs k of None \<Rightarrow> Inl KeyError | Some v \<Rightarrow> Inr v)"
| "getitem _ k = Inl TypeError"

text \<open>A chain of subscriptions \<^verbatim>\<open>d[k1][k2]...\<close>, left to right.\<close>

fun getpath :: "pyval \<Rightarrow> string list \<Rightarrow> error + pyval" where
  "getpath d [] = Inr d"
| "getpath d (k # ks) = (case getitem d k of Inl e \<Rightarrow> Inl e | Inr v \<Rightarrow> getpath v ks)"

text \<open>
  Python truthiness, as \<^verbatim>\<open>if self._image:\<close> reads it: None, False, zero and empty containers
  are false, a rectangle is true when it has an area, every other object is true.
\<close>

fun truthy :: "pyval \<Rightarrow> bool" where
  "truthy PNone = False"
| "truthy (PBool b) = b"
| "truthy (PInt n) = (n \<noteq> 0)"
| "truthy (PStr s) = (s \<noteq> [])"
| "truthy (PTuple xs) = (xs \<noteq> [])"
| "truthy (PDict kvs) = (kvs \<noteq> [])"
| "truthy (Rect x y w h) = (w \<noteq> 0 \<and> h \<noteq> 0)"
| "truthy _ = True"

text \<open>The values that have a \<^verbatim>\<open>render\<close> method, and those that have \<^verbatim>\<open>get_rect\<close>.\<close>

fun is_font :: "pyval \<Rightarrow> bool" where
  "is_font (SysFont f s) = True"
| "is_font (Font n) = True"
| "is_font _ = False"

fun is_surface :: "pyval \<Rightarrow> bool" where
  "is_surface (Surface n) = True"
| "is_surface _ = False"

subsection \<open>Keyword mappings\<close>

type_synonym kwargs = "string \<rightharpoonup> pyval"

text \<open>\<^verbatim>\<open>kwargs.pop(k, d)\<close> returns the value and removes the key; \<^verbatim>\<open>kwargs.get(k, d)\<close> leaves it.\<close>

definition dict_pop :: "string \<Rightarrow> pyval \<Rightarrow> kwargs \<Rightarrow> pyval \<times> kwargs" where
  "dict_pop k d kw = (case kw k of None \<Rightarrow> (d, kw) | Some v \<Rightarrow> (v, kw(k := None)))"

definition dict_get :: "string \<Rightarrow> pyval \<Rightarrow> kwargs \<Rightarrow> pyval" where
  "dict_get k d kw = (case kw k of None \<Rightarrow> d | Some v \<Rightarrow> v)"

section \<open>The Label\<close>

text \<open>
  One field per attribute of \<^verbatim>\<open>self\<close> that label.py reads or writes. \<open>master\<close> and \<open>rect\<close>
  are the base widget's \<^verbatim>\<open>_master\<close> and \<^verbatim>\<open>_rect\<close>, \<open>hovered\<close> is the hover mixin's flag;
  \<open>text_attr\<close> and \<open>image_attr\<close> are \<^verbatim>\<open>_text\<close> and \<^verbatim>\<open>_image\<close>.
\<close>

record label =
  text_attr :: pyval
  wraplength :: pyval
  underline :: pyval
  font :: pyval
  image_attr :: pyval
  border_radius :: pyval
  borderwidth :: pyval
  foreground :: pyval
  background :: pyval
  hovercolor :: pyval
  hoverbackground :: pyval
  bordercolor :: pyval
  state :: pyval
  master :: pyval
  rect :: pyval
  hovered :: bool

subsection \<open>State derivation and the per-tick update\<close>

text \<open>\<^verbatim>\<open>_set_state_(state=None)\<close>: without a target the state follows the hover flag.\<close>

definition set_state :: "pyval \<Rightarrow> label \<Rightarrow> label" where
  "set_state s L =
     (if s = PNone
      then L\<lparr>state := (if hovered L then PStr ''hovered'' else PStr ''normal'')\<rparr>
      else L\<lparr>state := s\<rparr>)"

text \<open>\<^verbatim>\<open>_perform_update_(delta)\<close> ignores \<open>delta\<close> and calls \<^verbatim>\<open>_set_state_()\<close>.\<close>

definition perform_update :: "'d \<Rightarrow> label \<Rightarrow> label" where
  "perform_update delta L = set_state PNone L"

subsection \<open>Colour resolution\<close>

definition get_state_foreground :: "label \<Rightarrow> pyval" where
  "get_state_foreground L = (if state L = PStr ''hovered'' then hovercolor L else foreground L)"

definition get_state_background :: "label \<Rightarrow> pyval" where
  "get_state_background L =
     (if state L = PStr ''hovered'' then hoverbackground L else background L)"

subsection \<open>The configure bridge\<close>

text \<open>
  The Label's own part of \<^verbatim>\<open>_configure_set_\<close>: the assignments in source order, and the
  mapping that is left for \<^verbatim>\<open>super()._configure_set_(**kwargs)\<close>.
\<close>

definition configure_set_label :: "kwargs \<Rightarrow> label \<Rightarrow> label \<times> kwargs" where
  "configure_set_label kw0 L =
     (let (v_text, kw1) = dict_pop ''text'' (text_attr L) kw0;
          (v_font, kw2) = dict_pop ''font'' (font L) kw1;
          (v_image, kw3) = dict_pop ''image'' (image_attr L) kw2;
          (v_state, kw4) = dict_pop ''state'' (state L) kw3;
          (v_underline, kw5) = dict_pop ''underline'' (underline L) kw4;
          (v_hovercolor, kw6) = dict_pop ''hovercolor'' (hovercolor L) kw5;
          (v_hoverbackground, kw7) = dict_pop ''hoverbackground'' (hoverbackground L) kw6;
          (v_bordercolor, kw8) = dict_pop ''bordercolor'' (bordercolor L) kw7;
          v_borderwidth = dict_get ''borderwidth'' (borderwidth L) kw8;
          v_border_radius = dict_get ''border_radius'' (border_radius L) kw8
      in (L\<lparr>text_attr := v_text, font := v_font, image_attr := v_image, state := v_state,
             underline := v_underline, hovercolor := v_hovercolor,
             hoverbackground := v_hoverbackground, bordercolor := v_bordercolor,
             borderwidth := v_borderwidth, border_radius := v_border_radius\<rparr>,
          kw8))"

text \<open>
  \<^verbatim>\<open>_configure_set_\<close> as a whole; \<open>widget_set\<close> stands for the base widget's
  \<^verbatim>\<open>_configure_set_\<close>, which is not part of label.py.
\<close>

definition configure_set :: "(kwargs \<Rightarrow> label \<Rightarrow> label) \<Rightarrow> kwargs \<Rightarrow> label \<Rightarrow> label" where
  "configure_set widget_set kw L =
     (let (L', kw') = configure_set_label kw L in widget_set kw' L')"

text \<open>
  \<^verbatim>\<open>_configure_get_\<close>; \<open>widget_get\<close> stands for the base widget's \<^verbatim>\<open>_configure_get_\<close>.
\<close>

definition configure_get :: "(string \<Rightarrow> label \<Rightarrow> pyval) \<Rightarrow> string \<Rightarrow> label \<Rightarrow> pyval" where
  "configure_get widget_get attribute L =
     (if attribute = ''text'' then text_attr L
      else if attribute = ''font'' then font L
      else if attribute = ''image'' then image_attr L
      else if attribute = ''state'' then state L
      else if attribute = ''underline'' then underline L
      else if attribute = ''hovercolor'' then hovercolor L
      else if attribute = ''hoverbackground'' then hoverbackground L
      else if attribute = ''bordercolor'' then bordercolor L
      else if attribute = ''border_radius'' then border_radius L
      else widget_get attribute L)"

text \<open>
  Modelled from the spec: \<^verbatim>\<open>Widget.configure\<close>, the generic configure protocol of the base
  widget (widget.py is not among the sources). "Configure bridge consumed/exposed:
  get(name) -> value, set(name, value)* pairs": called with an attribute name it answers
  through \<^verbatim>\<open>_configure_get_\<close> and changes nothing; called without one it applies
  \<^verbatim>\<open>_configure_set_\<close> to the mapping and returns None.
\<close>

definition configure ::
  "(string \<Rightarrow> label \<Rightarrow> pyval) \<Rightarrow> (kwargs \<Rightarrow> label \<Rightarrow> label)
   \<Rightarrow> string option \<Rightarrow> kwargs \<Rightarrow> label \<Rightarrow> pyval \<times> label" where
  "configure widget_get widget_set config kw L =
     (case config of
        Some attribute \<Rightarrow> (configure_get widget_get attribute L, L)
      | None \<Rightarrow> (PNone, configure_set widget_set kw L))"

text \<open>\<^verbatim>\<open>get_text()\<close> is \<^verbatim>\<open>configure(config="text")\<close>; \<^verbatim>\<open>set_text(s)\<close> is \<^verbatim>\<open>configure(config=None, text=s)\<close>.\<close>

definition get_text ::
  "(string \<Rightarrow> label \<Rightarrow> pyval) \<Rightarrow> (kwargs \<Rightarrow> label \<Rightarrow> label) \<Rightarrow> label \<Rightarrow> pyval \<times> label" where
  "get_text widget_get widget_set L = configure widget_get widget_set (Some ''text'') Map.empty L"

definition set_text ::
  "(string \<Rightarrow> label \<Rightarrow> pyval) \<Rightarrow> (kwargs \<Rightarrow> label \<Rightarrow> label) \<Rightarrow> pyval \<Rightarrow> label \<Rightarrow> label" where
  "set_text widget_get widget_set new_text L =
     snd (configure widget_get widget_set None (Map.empty(''text'' \<mapsto> new_text)) L)"

subsection \<open>Drawing\<close>

text \<open>
  The draw routine's effect is the sequence of calls it makes to the rendering library.
  \<open>Draw_rect s c r w b\<close> is \<^verbatim>\<open>pygame.draw.rect(s, c, r, width=w, border_radius=b)\<close>, with
  \<open>w = None\<close> when the call leaves the width out; \<open>Render f t a c\<close> is the call
  \<^verbatim>\<open>f.render(t, a, c)\<close> and \<open>Rendered f t a c\<close> the surface it returns; \<open>Blit s src dst\<close> is
  \<^verbatim>\<open>s.blit(src, dst)\<close>. \<open>Centered_on r\<close> is the source's rectangle with its centre at
  \<^verbatim>\<open>r.center\<close>; \<open>Left_of r p\<close> is the source's rectangle with \<^verbatim>\<open>centery = r.centery\<close> and
  \<^verbatim>\<open>left = r.left + p\<close>.
\<close>

datatype blit_source = Rendered pyval pyval bool pyval | Bitmap pyval

datatype blit_dest = Centered_on pyval | Left_of pyval int

datatype draw_call =
    Draw_rect pyval pyval pyval "pyval option" pyval
  | Render pyval pyval bool pyval
  | Blit pyval blit_source blit_dest

text \<open>
  \<^verbatim>\<open>_perform_draw_(surface)\<close>: the calls made, and the exception that ended the routine if one
  did. The \<open>surface\<close> argument is not used: every call goes to \<^verbatim>\<open>self._master\<close>.
  \<^verbatim>\<open>self._font.render\<close> and \<^verbatim>\<open>self._image.get_rect\<close> raise AttributeError on a value
  without that method, before any call is made. \<open>render_raises f t a c\<close> is what the font's
  render does with these arguments: the exception it raises (the library refuses, for
  one, a text that is not a string or that holds a NUL character), or \<open>None\<close> when it
  returns the surface. A render call that raises is recorded, and ends the routine.
\<close>

definition perform_draw ::
  "(pyval \<Rightarrow> pyval \<Rightarrow> bool \<Rightarrow> pyval \<Rightarrow> error option) \<Rightarrow> pyval \<Rightarrow> label
   \<Rightarrow> draw_call list \<times> error option" where
  "perform_draw render_raises surface L =
     (let fg = get_state_foreground L;
          bg = get_state_background L;
          fill = Draw_rect (master L) bg (rect L) None (border_radius L);
          border = Draw_rect (master L) (bordercolor L) (rect L) (Some (borderwidth L))
                     (border_radius L)
      in if \<not> is_font (font L) then ([fill, border], Some AttributeError)
         else
           let render = Render (font L) (text_attr L) True fg
           in case render_raises (font L) (text_attr L) True fg of
                Some e \<Rightarrow> ([fill, border, render], Some e)
              | None \<Rightarrow>
                  let btn_text = Rendered (font L) (text_attr L) True fg;
                      text_blit = Blit (master L) btn_text (Centered_on (rect L))
                  in if truthy (image_attr L)
                     then if is_surface (image_attr L)
                          then ([fill, border, render, text_blit,
                                 Blit (master L) (Bitmap (image_attr L)) (Left_of (rect L) 8)],
                                None)
                          else ([fill, border, render, text_blit], Some AttributeError)
                     else ([fill, border, render, text_blit], None))"

text \<open>The text a recorded call asks the font to render.\<close>

fun rendered_text :: "draw_call \<Rightarrow> pyval list" where
  "rendered_text (Render f t a c) = [t]"
| "rendered_text _ = []"

subsection \<open>Construction\<close>

definition then_with :: "error + 'a \<Rightarrow> ('a \<Rightarrow> error + 'b) \<Rightarrow> error + 'b" where
  "then_with m f = (case m of Inl e \<Rightarrow> Inl e | Inr v \<Rightarrow> f v)"

text \<open>
  \<^verbatim>\<open>Label.__init__\<close>, statement by statement. \<open>theme\<close> is \<^verbatim>\<open>ThemeManager.theme\<close>; a default
  given to \<^verbatim>\<open>kwargs.pop\<close> is looked up in the theme before the pop, whether or not the key
  is present. \<open>base_init\<close> stands for \<^verbatim>\<open>Widget.__init__\<close> followed by
  \<^verbatim>\<open>HoverableMixin.__init__\<close>, which are not part of label.py: from the master, the size,
  the two colours and the remaining keywords they establish \<^verbatim>\<open>_master\<close>, \<^verbatim>\<open>_rect\<close> and the
  hover flag.
\<close>

definition Label_init ::
  "pyval \<Rightarrow> (pyval \<Rightarrow> pyval \<Rightarrow> pyval \<Rightarrow> pyval \<Rightarrow> pyval \<Rightarrow> kwargs \<Rightarrow> error + pyval \<times> pyval \<times> bool)
   \<Rightarrow> pyval \<Rightarrow> pyval \<Rightarrow> pyval \<Rightarrow> pyval \<Rightarrow> pyval \<Rightarrow> pyval \<Rightarrow> pyval \<Rightarrow> pyval \<Rightarrow> kwargs
   \<Rightarrow> error + label" where
  "Label_init theme base_init master_arg width height text_arg font_arg image_arg
      background_arg foreground_arg kw0 =
     (let (v_wraplength, kw1) = dict_pop ''wraplength'' (PBool True) kw0;
          (v_underline, kw2) = dict_pop ''underline'' (PBool False) kw1
      in
      then_with (getpath theme [''font'', ''family'']) (\<lambda>family.
      then_with (getpath theme [''font'', ''size'']) (\<lambda>size.
      let sys_font = SysFont family size;
          v_font = (if font_arg = PNone then sys_font else font_arg)
      in
      then_with (getpath theme [''Label'', ''border_radius'']) (\<lambda>d_radius.
      let (v_radius, kw3) = dict_pop ''border_radius'' d_radius kw2 in
      then_with (getpath theme [''Label'', ''borderwidth'']) (\<lambda>d_width.
      let (v_width, kw4) = dict_pop ''borderwidth'' d_width kw3 in
      then_with (if foreground_arg = PNone
                 then getpath theme [''Label'', ''normal'', ''foreground'']
                 else Inr foreground_arg) (\<lambda>fg.
      then_with (if background_arg = PNone
                 then getpath theme [''Label'', ''normal'', ''background'']
                 else Inr background_arg) (\<lambda>bg.
      then_with (getpath theme [''Label'', ''hovered'', ''foreground'']) (\<lambda>d_hovercolor.
      let (v_hovercolor, kw5) = dict_pop ''hovercolor'' (Color d_hovercolor) kw4 in
      then_with (getpath theme [''Label'', ''hovered'', ''background'']) (\<lambda>d_hoverbackground.
      let (v_hoverbackground, kw6) = dict_pop ''hoverbackground'' (Color d_hoverbackground) kw5 in
      then_with (getpath theme [''Label'', ''bordercolor'']) (\<lambda>d_bordercolor.
      let (v_bordercolor, kw7) = dict_pop ''bordercolor'' (Color d_bordercolor) kw6;
          (v_state, kw8) = dict_pop ''state'' (PStr ''normal'') kw7
      in
      then_with (base_init master_arg width height (Color fg) (Color bg) kw8) (\<lambda>(m, r, h).
      Inr \<lparr>text_attr = text_arg, wraplength = v_wraplength, underline = v_underline,
           font = v_font, image_attr = image_arg, border_radius = v_radius,
           borderwidth = v_width, foreground = Color fg, background = Color bg,
           hovercolor = v_hovercolor, hoverbackground = v_hoverbackground,
           bordercolor = v_bordercolor, state = v_state,
           master = m, rect = r, hovered = h\<rparr>)))))))))))"

subsection \<open>A theme and a base widget to run the model on\<close>

text \<open>
  A theme with every key the constructor reads; it also carries a border radius and a
  border colour under "Label"/"normal", which the constructor does not read.
\<close>

definition example_theme :: pyval where
  "example_theme =
     PDict [(''font'', PDict [(''family'', PStr ''Arial''), (''size'', PInt 16)]),
            (''Label'',
             PDict [(''border_radius'', PInt 5),
                    (''borderwidth'', PInt 2),
                    (''bordercolor'', PStr ''black''),
                    (''normal'',
                     PDict [(''foreground'', PStr ''white''),
                            (''background'', PStr ''blue''),
                            (''border_radius'', PInt 9),
                            (''bordercolor'', PStr ''red'')]),
                    (''hovered'',
                     PDict [(''foreground'', PStr ''yellow''),
                            (''background'', PStr ''navy'')])])]"

text \<open>A base widget that keeps the master, places the rectangle at the origin, and starts
  with the pointer away.\<close>

definition example_base ::
  "pyval \<Rightarrow> pyval \<Rightarrow> pyval \<Rightarrow> pyval \<Rightarrow> pyval \<Rightarrow> kwargs \<Rightarrow> error + pyval \<times> pyval \<times> bool" where
  "example_base m w h fg bg kw =
     (case (w, h) of
        (PInt a, PInt b) \<Rightarrow> Inr (m, Rect 0 0 a b, False)
      | _ \<Rightarrow> Inl TypeError)"

text \<open>\<^verbatim>\<open>Label(master=screen, text="My Label")\<close> on that theme, as a value.\<close>

definition example_label :: label where
  "example_label =
     \<lparr>text_attr = PStr ''My Label'', wraplength = PBool True, underline = PBool False,
      font = SysFont (PStr ''Arial'') (PInt 16), image_attr = PNone,
      border_radius = PInt 5, borderwidth = PInt 2,
      foreground = Color (PStr ''white''), background = Color (PStr ''blue''),
      hovercolor = Color (PStr ''yellow''), hoverbackground = Color (PStr ''navy''),
      bordercolor = Color (PStr ''black''), state = PStr ''normal'',
      master = Surface 0, rect = Rect 0 0 200 40, hovered = False\<rparr>"

text \<open>
  A font render to run the draw routine on: it raises TypeError on a text that is not a
  string, ValueError on a string that holds a NUL character, and returns otherwise.
\<close>

definition example_render :: "pyval \<Rightarrow> pyval \<Rightarrow> bool \<Rightarrow> pyval \<Rightarrow> error option" where
  "example_render f t a c =
     (case t of
        PStr s \<Rightarrow> if CHR 0x00 \<in> set s then Some ValueError else None
      | _ \<Rightarrow> Some TypeError)"

section \<open>Keyword mappings, the constructor and the configure bridge in closed form\<close>

lemma dict_pop_eq: "dict_pop k d kw = (dict_get k d kw, kw(k := None))"
  by (cases "kw k") (auto simp: dict_pop_def dict_get_def)

lemma dict_get_upd:
  "dict_get k d (kw(k' := v)) = (if k = k' then (case v of None \<Rightarrow> d | Some x \<Rightarrow> x) else dict_get k d kw)"
  by (simp add: dict_get_def)

lemma then_withE:
  assumes "then_with m f = Inr y"
  obtains v where "m = Inr v" and "f v = Inr y"
  using assms by (cases m) (simp_all add: then_with_def)

lemma Label_init_eq:
  "Label_init theme base_init m w h t f i bg fg kw =
      then_with (getpath theme [''font'', ''family'']) (\<lambda>family.
      then_with (getpath theme [''font'', ''size'']) (\<lambda>size.
      then_with (getpath theme [''Label'', ''border_radius'']) (\<lambda>d_radius.
      then_with (getpath theme [''Label'', ''borderwidth'']) (\<lambda>d_width.
      then_with (if fg = PNone
                 then getpath theme [''Label'', ''normal'', ''foreground'']
                 else Inr fg) (\<lambda>v_fg.
      then_with (if bg = PNone
                 then getpath theme [''Label'', ''normal'', ''background'']
                 else Inr bg) (\<lambda>v_bg.
      then_with (getpath theme [''Label'', ''hovered'', ''foreground'']) (\<lambda>d_hc.
      then_with (getpath theme [''Label'', ''hovered'', ''background'']) (\<lambda>d_hb.
      then_with (getpath theme [''Label'', ''bordercolor'']) (\<lambda>d_bc.
      then_with (base_init m w h (Color v_fg) (Color v_bg)
                   (kw(''wraplength'' := None, ''underline'' := None, ''border_radius'' := None,
                       ''borderwidth'' := None, ''hovercolor'' := None,
                       ''hoverbackground'' := None, ''bordercolor'' := None, ''state'' := None)))
        (\<lambda>(ma, r, hv).
      Inr \<lparr>text_attr = t,
           wraplength = dict_get ''wraplength'' (PBool True) kw,
           underline = dict_get ''underline'' (PBool False) kw,
           font = (if f = PNone then SysFont family size else f),
           image_attr = i,
           border_radius = dict_get ''border_radius'' d_radius kw,
           borderwidth = dict_get ''borderwidth'' d_width kw,
           foreground = Color v_fg, background = Color v_bg,
           hovercolor = dict_get ''hovercolor'' (Color d_hc) kw,
           hoverbackground = dict_get ''hoverbackground'' (Color d_hb) kw,
           bordercolor = dict_get ''bordercolor'' (Color d_bc) kw,
           state = dict_get ''state'' (PStr ''normal'') kw,
           master = ma, rect = r, hovered = hv\<rparr>))))))))))"
  unfolding Label_init_def dict_pop_eq Let_def prod.case
  by (simp only: dict_get_upd list.inject char.inject simp_thms if_False if_True fun_upd_apply option.case)


lemma Label_init_Inr:
  assumes "Label_init theme base_init m w h t f i bg fg kw = Inr L"
  obtains family size d_radius d_width v_fg v_bg d_hc d_hb d_bc where
      "getpath theme [''font'', ''family''] = Inr family"
      "getpath theme [''font'', ''size''] = Inr size"
      "getpath theme [''Label'', ''border_radius''] = Inr d_radius"
      "getpath theme [''Label'', ''borderwidth''] = Inr d_width"
      "(if fg = PNone then getpath theme [''Label'', ''normal'', ''foreground''] else Inr fg) = Inr v_fg"
      "(if bg = PNone then getpath theme [''Label'', ''normal'', ''background''] else Inr bg) = Inr v_bg"
      "getpath theme [''Label'', ''hovered'', ''foreground''] = Inr d_hc"
      "getpath theme [''Label'', ''hovered'', ''background''] = Inr d_hb"
      "getpath theme [''Label'', ''bordercolor''] = Inr d_bc"
      "text_attr L = t"
      "wraplength L = dict_get ''wraplength'' (PBool True) kw"
      "underline L = dict_get ''underline'' (PBool False) kw"
      "font L = (if f = PNone then SysFont family size else f)"
      "image_attr L = i"
      "border_radius L = dict_get ''border_radius'' d_radius kw"
      "borderwidth L = dict_get ''borderwidth'' d_width kw"
      "foreground L = Color v_fg"
      "background L = Color v_bg"
      "hovercolor L = dict_get ''hovercolor'' (Color d_hc) kw"
      "hoverbackground L = dict_get ''hoverbackground'' (Color d_hb) kw"
      "bordercolor L = dict_get ''bordercolor'' (Color d_bc) kw"
      "state L = dict_get ''state'' (PStr ''normal'') kw"
proof -
  from assms [unfolded Label_init_eq]
  obtain family size d_radius d_width v_fg v_bg d_hc d_hb d_bc b where
      g: "getpath theme [''font'', ''family''] = Inr family"
      "getpath theme [''font'', ''size''] = Inr size"
      "getpath theme [''Label'', ''border_radius''] = Inr d_radius"
      "getpath theme [''Label'', ''borderwidth''] = Inr d_width"
      "(if fg = PNone then getpath theme [''Label'', ''normal'', ''foreground''] else Inr fg) = Inr v_fg"
      "(if bg = PNone then getpath theme [''Label'', ''normal'', ''background''] else Inr bg) = Inr v_bg"
      "getpath theme [''Label'', ''hovered'', ''foreground''] = Inr d_hc"
      "getpath theme [''Label'', ''hovered'', ''background''] = Inr d_hb"
      "getpath theme [''Label'', ''bordercolor''] = Inr d_bc"
    and L: "(case b of (ma, r, hv) \<Rightarrow>
      Inr \<lparr>text_attr = t,
           wraplength = dict_get ''wraplength'' (PBool True) kw,
           underline = dict_get ''underline'' (PBool False) kw,
           font = (if f = PNone then SysFont family size else f),
           image_attr = i,
           border_radius = dict_get ''border_radius'' d_radius kw,
           borderwidth = dict_get ''borderwidth'' d_width kw,
           foreground = Color v_fg, background = Color v_bg,
           hovercolor = dict_get ''hovercolor'' (Color d_hc) kw,
           hoverbackground = dict_get ''hoverbackground'' (Color d_hb) kw,
           bordercolor = dict_get ''bordercolor'' (Color d_bc) kw,
           state = dict_get ''state'' (PStr ''normal'') kw,
           master = ma, rect = r, hovered = hv\<rparr>) = (Inr L :: error + label)"
    by (elim then_withE) blast
  obtain ma r hv where b: "b = (ma, r, hv)" by (cases b) auto
  from L [unfolded b prod.case sum.inject]
  have L': "L = \<lparr>text_attr = t,
           wraplength = dict_get ''wraplength'' (PBool True) kw,
           underline = dict_get ''underline'' (PBool False) kw,
           font = (if f = PNone then SysFont family size else f),
           image_attr = i,
           border_radius = dict_get ''border_radius'' d_radius kw,
           borderwidth = dict_get ''borderwidth'' d_width kw,
           foreground = Color v_fg, background = Color v_bg,
           hovercolor = dict_get ''hovercolor'' (Color d_hc) kw,
           hoverbackground = dict_get ''hoverbackground'' (Color d_hb) kw,
           bordercolor = dict_get ''bordercolor'' (Color d_bc) kw,
           state = dict_get ''state'' (PStr ''normal'') kw,
           master = ma, rect = r, hovered = hv\<rparr>" by (rule sym)
  show thesis
    by (rule that [OF g]) (simp_all only: L' label.simps)
qed


lemma dict_get_None: "kw k = None \<Longrightarrow> dict_get k d kw = d"
  by (simp add: dict_get_def)

lemma configure_set_label_eq:
  "configure_set_label kw L =
     (L\<lparr>text_attr := dict_get ''text'' (text_attr L) kw,
        font := dict_get ''font'' (font L) kw,
        image_attr := dict_get ''image'' (image_attr L) kw,
        state := dict_get ''state'' (state L) kw,
        underline := dict_get ''underline'' (underline L) kw,
        hovercolor := dict_get ''hovercolor'' (hovercolor L) kw,
        hoverbackground := dict_get ''hoverbackground'' (hoverbackground L) kw,
        bordercolor := dict_get ''bordercolor'' (bordercolor L) kw,
        borderwidth := dict_get ''borderwidth'' (borderwidth L) kw,
        border_radius := dict_get ''border_radius'' (border_radius L) kw\<rparr>,
      kw(''text'' := None, ''font'' := None, ''image'' := None, ''state'' := None,
         ''underline'' := None, ''hovercolor'' := None, ''hoverbackground'' := None,
         ''bordercolor'' := None))"
  unfolding configure_set_label_def dict_pop_eq Let_def prod.case
  by (simp only: dict_get_upd list.inject char.inject simp_thms if_False if_True)

lemma example_label_constructed:
  "Label_init example_theme example_base (Surface 0) (PInt 200) (PInt 40) (PStr ''My Label'')
     PNone PNone PNone PNone Map.empty = Inr example_label"
  by (simp add: Label_init_def example_theme_def example_base_def example_label_def
      dict_pop_def then_with_def)

section \<open>State derivation\<close>

lemma state_set_state_derived:
  "state (set_state PNone L) = (if hovered L then PStr ''hovered'' else PStr ''normal'')"
  by (simp add: set_state_def)

lemma hovered_set_state: "hovered (set_state s L) = hovered L"
  by (simp add: set_state_def)

text \<open>
  C1. Whatever the state field held before, after the per-tick update it is "hovered" if
  the hover flag was true when the update was invoked and "normal" otherwise. A state
  forced through \<^verbatim>\<open>_set_state_(s)\<close> is overwritten by the next update, and two updates
  with the flag first true and then false take the state from "hovered" to "normal".
\<close>

theorem update_state_follows_hover:
  "state (perform_update delta L) = (if hovered L then PStr ''hovered'' else PStr ''normal'')
   \<and> state (perform_update delta (L\<lparr>state := s0\<rparr>)) = state (perform_update delta L)
   \<and> state (perform_update delta (set_state s L)) = state (perform_update delta L)
   \<and> state (perform_update delta (L\<lparr>hovered := True\<rparr>)) = PStr ''hovered''
   \<and> state (perform_update delta' ((perform_update delta (L\<lparr>hovered := True\<rparr>))\<lparr>hovered := False\<rparr>))
       = PStr ''normal''"
proof -
  have derived: "\<And>M. state (perform_update delta M)
      = (if hovered M then PStr ''hovered'' else PStr ''normal'')"
    unfolding perform_update_def by (rule state_set_state_derived)
  have derived': "\<And>M. state (perform_update delta' M)
      = (if hovered M then PStr ''hovered'' else PStr ''normal'')"
    unfolding perform_update_def by (rule state_set_state_derived)
  show ?thesis
    by (simp add: derived derived' hovered_set_state)
qed

section \<open>Colour resolution\<close>

lemma perform_draw_calls_font:
  assumes "is_font (font L)"
  shows "fst (perform_draw render_raises surface L) ! 0
           = Draw_rect (master L) (get_state_background L) (rect L) None (border_radius L)"
    and "fst (perform_draw render_raises surface L) ! 2
           = Render (font L) (text_attr L) True (get_state_foreground L)"
  using assms by (simp_all add: perform_draw_def Let_def split: option.splits)

lemma perform_draw_text_blit:
  assumes "is_font (font L)"
    and "render_raises (font L) (text_attr L) True (get_state_foreground L) = None"
  shows "fst (perform_draw render_raises surface L) ! 3
           = Blit (master L) (Rendered (font L) (text_attr L) True (get_state_foreground L))
               (Centered_on (rect L))"
  using assms by (simp add: perform_draw_def Let_def)

text \<open>
  C2. The colours used for drawing are resolved from the state field: when the state is
  "hovered" they are the hover foreground and hover background, for any other state
  value the normal foreground and background. Two labels that agree on the state and on
  the four colour fields resolve to the same colours whatever their other fields (the
  hover flag included), and these are the colours the draw routine passes to the
  background fill and to the text render, whether or not the render then raises; when
  it returns, the surface blitted is the one rendered in the resolved foreground.
\<close>

theorem resolved_colours_by_state:
  "(state L = PStr ''hovered'' \<longrightarrow>
      get_state_foreground L = hovercolor L \<and> get_state_background L = hoverbackground L)
   \<and> (state L \<noteq> PStr ''hovered'' \<longrightarrow>
      get_state_foreground L = foreground L \<and> get_state_background L = background L)
   \<and> (state M = state L \<and> foreground M = foreground L \<and> background M = background L
        \<and> hovercolor M = hovercolor L \<and> hoverbackground M = hoverbackground L \<longrightarrow>
      get_state_foreground M = get_state_foreground L
      \<and> get_state_background M = get_state_background L)
   \<and> (is_font (font L) \<longrightarrow>
      fst (perform_draw render_raises surface L) ! 0
        = Draw_rect (master L) (get_state_background L) (rect L) None (border_radius L)
      \<and> fst (perform_draw render_raises surface L) ! 2
        = Render (font L) (text_attr L) True (get_state_foreground L))
   \<and> (is_font (font L)
        \<and> render_raises (font L) (text_attr L) True (get_state_foreground L) = None \<longrightarrow>
      fst (perform_draw render_raises surface L) ! 3
        = Blit (master L) (Rendered (font L) (text_attr L) True (get_state_foreground L))
            (Centered_on (rect L)))"
proof (intro conjI impI)
  assume "state L = PStr ''hovered''"
  then show "get_state_foreground L = hovercolor L"
    and "get_state_background L = hoverbackground L"
    by (simp_all add: get_state_foreground_def get_state_background_def)
next
  assume "state L \<noteq> PStr ''hovered''"
  then show "get_state_foreground L = foreground L"
    and "get_state_background L = background L"
    by (simp_all add: get_state_foreground_def get_state_background_def)
next
  assume same: "state M = state L \<and> foreground M = foreground L \<and> background M = background L
        \<and> hovercolor M = hovercolor L \<and> hoverbackground M = hoverbackground L"
  then show "get_state_foreground M = get_state_foreground L"
    and "get_state_background M = get_state_background L"
    by (simp_all add: get_state_foreground_def get_state_background_def)
next
  assume f: "is_font (font L)"
  show "fst (perform_draw render_raises surface L) ! 0
        = Draw_rect (master L) (get_state_background L) (rect L) None (border_radius L)"
    by (rule perform_draw_calls_font(1) [OF f])
  show "fst (perform_draw render_raises surface L) ! 2
        = Render (font L) (text_attr L) True (get_state_foreground L)"
    by (rule perform_draw_calls_font(2) [OF f])
next
  assume "is_font (font L)
        \<and> render_raises (font L) (text_attr L) True (get_state_foreground L) = None"
  then show "fst (perform_draw render_raises surface L) ! 3
        = Blit (master L) (Rendered (font L) (text_attr L) True (get_state_foreground L))
            (Centered_on (rect L))"
    by (simp add: perform_draw_text_blit)
qed

theorem resolved_colours_by_state_witness:
  "state example_label \<noteq> PStr ''hovered''
   \<and> get_state_foreground example_label = Color (PStr ''white'')
   \<and> get_state_background example_label = Color (PStr ''blue'')
   \<and> state (example_label\<lparr>state := PStr ''hovered'', hovered := False\<rparr>) = PStr ''hovered''
   \<and> get_state_foreground (example_label\<lparr>state := PStr ''hovered'', hovered := False\<rparr>)
        = Color (PStr ''yellow'')
   \<and> get_state_background (example_label\<lparr>state := PStr ''hovered'', hovered := False\<rparr>)
        = Color (PStr ''navy'')
   \<and> get_state_foreground (example_label\<lparr>text_attr := PStr ''other'', hovered := True\<rparr>)
        = get_state_foreground example_label
   \<and> is_font (font example_label)
   \<and> example_render (font example_label) (text_attr example_label) True
        (get_state_foreground example_label) = None
   \<and> fst (perform_draw example_render PNone example_label) ! 0
        = Draw_rect (Surface 0) (Color (PStr ''blue'')) (Rect 0 0 200 40) None (PInt 5)
   \<and> fst (perform_draw example_render PNone example_label) ! 2
        = Render (SysFont (PStr ''Arial'') (PInt 16)) (PStr ''My Label'') True
            (Color (PStr ''white''))
   \<and> fst (perform_draw example_render PNone example_label) ! 3
        = Blit (Surface 0)
            (Rendered (SysFont (PStr ''Arial'') (PInt 16)) (PStr ''My Label'') True
               (Color (PStr ''white'')))
            (Centered_on (Rect 0 0 200 40))"
  using resolved_colours_by_state [of example_label
          "example_label\<lparr>text_attr := PStr ''other'', hovered := True\<rparr>" example_render PNone]
        resolved_colours_by_state [of "example_label\<lparr>state := PStr ''hovered'', hovered := False\<rparr>"
          example_label example_render PNone]
  by (simp add: example_label_def example_render_def)

section \<open>The draw routine\<close>

lemma perform_draw_no_font:
  "\<not> is_font (font L) \<Longrightarrow>
   perform_draw render_raises surface L =
     ([Draw_rect (master L) (get_state_background L) (rect L) None (border_radius L),
       Draw_rect (master L) (bordercolor L) (rect L) (Some (borderwidth L)) (border_radius L)],
      Some AttributeError)"
  by (simp add: perform_draw_def Let_def)

lemma perform_draw_render_raises:
  "is_font (font L) \<Longrightarrow>
   render_raises (font L) (text_attr L) True (get_state_foreground L) = Some e \<Longrightarrow>
   perform_draw render_raises surface L =
     ([Draw_rect (master L) (get_state_background L) (rect L) None (border_radius L),
       Draw_rect (master L) (bordercolor L) (rect L) (Some (borderwidth L)) (border_radius L),
       Render (font L) (text_attr L) True (get_state_foreground L)],
      Some e)"
  by (simp add: perform_draw_def Let_def)

lemma perform_draw_first_two:
  "take 2 (fst (perform_draw render_raises surface L)) =
     [Draw_rect (master L) (get_state_background L) (rect L) None (border_radius L),
      Draw_rect (master L) (bordercolor L) (rect L) (Some (borderwidth L)) (border_radius L)]"
  by (simp add: perform_draw_def Let_def split: option.splits)

lemma truthy_surface: "is_surface v \<Longrightarrow> truthy v"
  by (cases v) simp_all

text \<open>
  When the font is a font object, its render returns and the image is unset or a bitmap,
  the routine runs to its end and makes all its calls in source order.
\<close>

lemma perform_draw_complete:
  assumes "is_font (font L)"
    and "render_raises (font L) (text_attr L) True (get_state_foreground L) = None"
    and "image_attr L = PNone \<or> is_surface (image_attr L)"
  shows "perform_draw render_raises surface L =
     ([Draw_rect (master L) (get_state_background L) (rect L) None (border_radius L),
       Draw_rect (master L) (bordercolor L) (rect L) (Some (borderwidth L)) (border_radius L),
       Render (font L) (text_attr L) True (get_state_foreground L),
       Blit (master L) (Rendered (font L) (text_attr L) True (get_state_foreground L))
         (Centered_on (rect L))]
      @ (if image_attr L = PNone then []
         else [Blit (master L) (Bitmap (image_attr L)) (Left_of (rect L) 8)]),
      None)"
proof (cases "image_attr L = PNone")
  case True
  with assms(1,2) show ?thesis
    by (simp add: perform_draw_def Let_def)
next
  case False
  with assms(3) have s: "is_surface (image_attr L)" by simp
  then have "truthy (image_attr L)" by (rule truthy_surface)
  with assms(1,2) s False show ?thesis
    by (simp add: perform_draw_def Let_def)
qed

lemma example_label_font_tuple:
  "Label_init example_theme example_base (Surface 0) (PInt 200) (PInt 40) (PStr ''My Label'')
     (PTuple [PStr ''Arial'', PInt 12]) PNone PNone PNone Map.empty
   = Inr (example_label\<lparr>font := PTuple [PStr ''Arial'', PInt 12]\<rparr>)"
  by (simp add: Label_init_def example_theme_def example_base_def example_label_def
      dict_pop_def then_with_def)

text \<open>
  C3. The draw order on a label built with a font tuple, which the constructor's
  documentation allows: the constructor stores the tuple as it is, and the draw makes
  the filled background rectangle call and the border rectangle call, then raises
  AttributeError where it asks the font to render; no text is rendered or blitted. The
  same label built without a font argument makes fill, border, text render and text
  blit, in that order, and no image blit.
\<close>

theorem draw_with_font_tuple:
  "Label_init example_theme example_base (Surface 0) (PInt 200) (PInt 40) (PStr ''My Label'')
     (PTuple [PStr ''Arial'', PInt 12]) PNone PNone PNone Map.empty
     = Inr (example_label\<lparr>font := PTuple [PStr ''Arial'', PInt 12]\<rparr>)
   \<and> perform_draw example_render PNone (example_label\<lparr>font := PTuple [PStr ''Arial'', PInt 12]\<rparr>)
     = ([Draw_rect (Surface 0) (Color (PStr ''blue'')) (Rect 0 0 200 40) None (PInt 5),
         Draw_rect (Surface 0) (Color (PStr ''black'')) (Rect 0 0 200 40) (Some (PInt 2))
           (PInt 5)],
        Some AttributeError)
   \<and> perform_draw example_render PNone example_label
     = ([Draw_rect (Surface 0) (Color (PStr ''blue'')) (Rect 0 0 200 40) None (PInt 5),
         Draw_rect (Surface 0) (Color (PStr ''black'')) (Rect 0 0 200 40) (Some (PInt 2))
           (PInt 5),
         Render (SysFont (PStr ''Arial'') (PInt 16)) (PStr ''My Label'') True
           (Color (PStr ''white'')),
         Blit (Surface 0)
           (Rendered (SysFont (PStr ''Arial'') (PInt 16)) (PStr ''My Label'') True
              (Color (PStr ''white'')))
           (Centered_on (Rect 0 0 200 40))],
        None)"
proof -
  have tuple: "\<not> is_font (font (example_label\<lparr>font := PTuple [PStr ''Arial'', PInt 12]\<rparr>))"
    by simp
  have fails: "perform_draw example_render PNone
        (example_label\<lparr>font := PTuple [PStr ''Arial'', PInt 12]\<rparr>)
     = ([Draw_rect (Surface 0) (Color (PStr ''blue'')) (Rect 0 0 200 40) None (PInt 5),
         Draw_rect (Surface 0) (Color (PStr ''black'')) (Rect 0 0 200 40) (Some (PInt 2))
           (PInt 5)],
        Some AttributeError)"
    unfolding perform_draw_no_font [where render_raises = example_render and surface = PNone,
        OF tuple]
    by (simp add: example_label_def get_state_background_def)
  have f: "is_font (font example_label)"
    and r: "example_render (font example_label) (text_attr example_label) True
        (get_state_foreground example_label) = None"
    and i: "image_attr example_label = PNone"
    by (simp_all add: example_label_def example_render_def)
  have runs: "perform_draw example_render PNone example_label
     = ([Draw_rect (Surface 0) (Color (PStr ''blue'')) (Rect 0 0 200 40) None (PInt 5),
         Draw_rect (Surface 0) (Color (PStr ''black'')) (Rect 0 0 200 40) (Some (PInt 2))
           (PInt 5),
         Render (SysFont (PStr ''Arial'') (PInt 16)) (PStr ''My Label'') True
           (Color (PStr ''white'')),
         Blit (Surface 0)
           (Rendered (SysFont (PStr ''Arial'') (PInt 16)) (PStr ''My Label'') True
              (Color (PStr ''white'')))
           (Centered_on (Rect 0 0 200 40))],
        None)"
    unfolding perform_draw_complete [where L = example_label and render_raises = example_render
        and surface = PNone, OF f r disjI1 [OF i]]
    by (simp add: example_label_def get_state_background_def get_state_foreground_def)
  from example_label_font_tuple fails runs show ?thesis
    by (intro conjI)
qed

text \<open>
  A text the font's render refuses ends the draw the same way, one call later: the
  render call is made and raises.
\<close>

lemma draw_with_nul_text:
  "perform_draw example_render PNone
     (example_label\<lparr>text_attr := PStr [CHR ''a'', CHR 0x00, CHR ''b'']\<rparr>)
   = ([Draw_rect (Surface 0) (Color (PStr ''blue'')) (Rect 0 0 200 40) None (PInt 5),
       Draw_rect (Surface 0) (Color (PStr ''black'')) (Rect 0 0 200 40) (Some (PInt 2))
         (PInt 5),
       Render (SysFont (PStr ''Arial'') (PInt 16)) (PStr [CHR ''a'', CHR 0x00, CHR ''b''])
         True (Color (PStr ''white''))],
      Some ValueError)"
  by (simp add: perform_draw_def example_label_def example_render_def
      get_state_background_def get_state_foreground_def)

text \<open>
  C8. Every draw call issues the border rectangle call, whatever the border width and
  whether or not the routine later fails: it is the second call, on the master surface,
  in the border colour, over the same rectangle and with the same corner radius as the
  background fill, and its width argument is the border width. With border width 0 the
  call is issued with width 0, the value for which \<^verbatim>\<open>pygame.draw.rect\<close> is documented to
  fill the rectangle instead of stroking its outline.
\<close>

theorem border_call_unconditional:
  "fst (perform_draw render_raises surface L) ! 1
     = Draw_rect (master L) (bordercolor L) (rect L) (Some (borderwidth L)) (border_radius L)
   \<and> fst (perform_draw render_raises surface L) ! 0
     = Draw_rect (master L) (get_state_background L) (rect L) None (border_radius L)
   \<and> fst (perform_draw render_raises surface (L\<lparr>borderwidth := PInt 0\<rparr>)) ! 1
     = Draw_rect (master L) (bordercolor L) (rect L) (Some (PInt 0)) (border_radius L)"
proof -
  have two: "\<And>M. fst (perform_draw render_raises surface M) ! 1
      = take 2 (fst (perform_draw render_raises surface M)) ! 1"
    "\<And>M. fst (perform_draw render_raises surface M) ! 0
      = take 2 (fst (perform_draw render_raises surface M)) ! 0"
    by simp_all
  show ?thesis
    unfolding two perform_draw_first_two by simp
qed

text \<open>
  C9. The underline and wrap flags are never consulted by the draw routine: two labels
  that differ only in these flags produce the same calls and the same outcome. The one
  text the routine asks the font to render is the text field itself, unchanged.
\<close>

theorem draw_ignores_underline_wrap:
  "perform_draw render_raises surface (L\<lparr>underline := u, wraplength := w\<rparr>)
     = perform_draw render_raises surface L
   \<and> concat (map rendered_text (fst (perform_draw render_raises surface L)))
       = (if is_font (font L) then [text_attr L] else [])"
proof
  have fg: "get_state_foreground (L\<lparr>underline := u, wraplength := w\<rparr>) = get_state_foreground L"
    and bg: "get_state_background (L\<lparr>underline := u, wraplength := w\<rparr>) = get_state_background L"
    by (simp_all add: get_state_foreground_def get_state_background_def)
  show "perform_draw render_raises surface (L\<lparr>underline := u, wraplength := w\<rparr>)
      = perform_draw render_raises surface L"
    unfolding perform_draw_def fg bg by (simp add: Let_def split: option.splits)
next
  show "concat (map rendered_text (fst (perform_draw render_raises surface L)))
       = (if is_font (font L) then [text_attr L] else [])"
    by (simp add: perform_draw_def Let_def split: option.splits)
qed


section \<open>The text accessors\<close>

lemma configure_set_label_text:
  "configure_set_label (Map.empty(''text'' \<mapsto> v)) L = (L\<lparr>text_attr := v\<rparr>, Map.empty)"
  by (simp add: configure_set_label_eq dict_get_def)

lemma configure_get_text: "configure_get widget_get ''text'' L = text_attr L"
  by (simp add: configure_get_def)

text \<open>
  C4. For every string \<open>s\<close>, the empty one included, \<^verbatim>\<open>set_text(s)\<close> followed by
  \<^verbatim>\<open>get_text()\<close> returns \<open>s\<close>, and the pair of calls changes no attribute of the Label but
  the text. The Label's own layer hands the base widget an empty mapping; the statement
  holds for a base widget whose configure-set does nothing when given no names.
\<close>

theorem set_text_get_text:
  assumes "\<And>M. widget_set Map.empty M = M"
  shows "fst (get_text widget_get widget_set (set_text widget_get widget_set (PStr s) L)) = PStr s
     \<and> set_text widget_get widget_set (PStr s) L = L\<lparr>text_attr := PStr s\<rparr>
     \<and> snd (get_text widget_get widget_set (set_text widget_get widget_set (PStr s) L))
         = L\<lparr>text_attr := PStr s\<rparr>"
proof -
  have set: "set_text widget_get widget_set (PStr s) L = L\<lparr>text_attr := PStr s\<rparr>"
    by (simp add: set_text_def configure_def configure_set_def configure_set_label_text assms)
  have get: "\<And>M. get_text widget_get widget_set M = (text_attr M, M)"
    by (simp add: get_text_def configure_def configure_get_text)
  show ?thesis
    by (simp add: set get)
qed

theorem set_text_get_text_witness:
  "(\<forall>M. (\<lambda>kw M. M) (Map.empty :: kwargs) M = (M :: label))
   \<and> fst (get_text (\<lambda>a M. PNone) (\<lambda>kw M. M)
           (set_text (\<lambda>a M. PNone) (\<lambda>kw M. M) (PStr '''') example_label)) = PStr ''''
   \<and> set_text (\<lambda>a M. PNone) (\<lambda>kw M. M) (PStr ''Hi'') example_label
       = example_label\<lparr>text_attr := PStr ''Hi''\<rparr>
   \<and> fst (get_text (\<lambda>a M. PNone) (\<lambda>kw M. M)
           (set_text (\<lambda>a M. PNone) (\<lambda>kw M. M) (PStr ''Hi'') example_label)) = PStr ''Hi''"
proof -
  have h: "\<And>M. (\<lambda>kw M. M) (Map.empty :: kwargs) M = (M :: label)" by simp
  note empty_text = set_text_get_text [of "\<lambda>kw M. M" "\<lambda>a M. PNone" "''''" example_label, OF h]
  note hi_text = set_text_get_text [of "\<lambda>kw M. M" "\<lambda>a M. PNone" "''Hi''" example_label, OF h]
  show ?thesis
    by (intro conjI allI)
      (rule refl conjunct1 [OF empty_text] conjunct1 [OF hi_text]
         conjunct1 [OF conjunct2 [OF hi_text]])+
qed

section \<open>The configure bridge\<close>

text \<open>
  C7. Of the names the Label owns, the get bridge does not answer "borderwidth" or
  "wraplength": both fall through to the base widget, whatever it answers. The set
  bridge stores "borderwidth" and "border_radius" but leaves both names in the mapping it
  forwards, and it neither stores nor consumes "wraplength".
\<close>

theorem configure_bridge_gaps:
  "configure_get widget_get ''borderwidth'' L = widget_get ''borderwidth'' L
   \<and> configure_get widget_get ''wraplength'' L = widget_get ''wraplength'' L
   \<and> snd (configure_set_label kw L) ''borderwidth'' = kw ''borderwidth''
   \<and> snd (configure_set_label kw L) ''border_radius'' = kw ''border_radius''
   \<and> snd (configure_set_label kw L) ''wraplength'' = kw ''wraplength''
   \<and> wraplength (fst (configure_set_label kw L)) = wraplength L
   \<and> borderwidth example_label = PInt 2
   \<and> configure_get (\<lambda>a M. PNone) ''borderwidth'' example_label = PNone"
proof -
  have get: "configure_get widget_get ''borderwidth'' L = widget_get ''borderwidth'' L"
    "configure_get widget_get ''wraplength'' L = widget_get ''wraplength'' L"
    "configure_get (\<lambda>a M. PNone) ''borderwidth'' example_label = PNone"
    by (simp_all add: configure_get_def)
  have fwd: "snd (configure_set_label kw L) ''borderwidth'' = kw ''borderwidth''"
    "snd (configure_set_label kw L) ''border_radius'' = kw ''border_radius''"
    "snd (configure_set_label kw L) ''wraplength'' = kw ''wraplength''"
    by (simp_all add: configure_set_label_eq)
  have keep: "wraplength (fst (configure_set_label kw L)) = wraplength L"
    by (simp add: configure_set_label_eq)
  have ex: "borderwidth example_label = PInt 2"
    by (simp add: example_label_def)
  from get fwd keep ex show ?thesis by blast
qed

section \<open>Construction\<close>

text \<open>
  C5. When construction succeeds, every style value that was not overridden is the
  theme's default: the border radius, the border width and the border colour are read
  under the "Label" key itself, the normal foreground and background under
  "Label"/"normal", the hover colours under "Label"/"hovered"; each colour is the theme's
  value passed through \<^verbatim>\<open>pygame.Color\<close>.
\<close>

theorem init_defaults_from_theme:
  assumes "Label_init theme base_init m w h t f i bg fg kw = Inr L"
  shows "(kw ''border_radius'' = None \<longrightarrow>
            getpath theme [''Label'', ''border_radius''] = Inr (border_radius L))
     \<and> (kw ''borderwidth'' = None \<longrightarrow>
            getpath theme [''Label'', ''borderwidth''] = Inr (borderwidth L))
     \<and> (kw ''bordercolor'' = None \<longrightarrow>
            (\<exists>v. getpath theme [''Label'', ''bordercolor''] = Inr v \<and> bordercolor L = Color v))
     \<and> (fg = PNone \<longrightarrow>
            (\<exists>v. getpath theme [''Label'', ''normal'', ''foreground''] = Inr v
                 \<and> foreground L = Color v))
     \<and> (bg = PNone \<longrightarrow>
            (\<exists>v. getpath theme [''Label'', ''normal'', ''background''] = Inr v
                 \<and> background L = Color v))
     \<and> (kw ''hovercolor'' = None \<longrightarrow>
            (\<exists>v. getpath theme [''Label'', ''hovered'', ''foreground''] = Inr v
                 \<and> hovercolor L = Color v))
     \<and> (kw ''hoverbackground'' = None \<longrightarrow>
            (\<exists>v. getpath theme [''Label'', ''hovered'', ''background''] = Inr v
                 \<and> hoverbackground L = Color v))"
proof -
  from assms obtain d_radius d_width v_fg v_bg d_hc d_hb d_bc where
      radius: "getpath theme [''Label'', ''border_radius''] = Inr d_radius"
        "border_radius L = dict_get ''border_radius'' d_radius kw"
    and width: "getpath theme [''Label'', ''borderwidth''] = Inr d_width"
        "borderwidth L = dict_get ''borderwidth'' d_width kw"
    and fgc: "(if fg = PNone then getpath theme [''Label'', ''normal'', ''foreground'']
               else Inr fg) = Inr v_fg" "foreground L = Color v_fg"
    and bgc: "(if bg = PNone then getpath theme [''Label'', ''normal'', ''background'']
               else Inr bg) = Inr v_bg" "background L = Color v_bg"
    and hc: "getpath theme [''Label'', ''hovered'', ''foreground''] = Inr d_hc"
        "hovercolor L = dict_get ''hovercolor'' (Color d_hc) kw"
    and hb: "getpath theme [''Label'', ''hovered'', ''background''] = Inr d_hb"
        "hoverbackground L = dict_get ''hoverbackground'' (Color d_hb) kw"
    and bc: "getpath theme [''Label'', ''bordercolor''] = Inr d_bc"
        "bordercolor L = dict_get ''bordercolor'' (Color d_bc) kw"
    by (rule Label_init_Inr)
  have 1: "kw ''border_radius'' = None \<longrightarrow>
            getpath theme [''Label'', ''border_radius''] = Inr (border_radius L)"
    using radius by (simp add: dict_get_None)
  have 2: "kw ''borderwidth'' = None \<longrightarrow>
            getpath theme [''Label'', ''borderwidth''] = Inr (borderwidth L)"
    using width by (simp add: dict_get_None)
  have 3: "kw ''bordercolor'' = None \<longrightarrow>
            (\<exists>v. getpath theme [''Label'', ''bordercolor''] = Inr v \<and> bordercolor L = Color v)"
    using bc by (simp add: dict_get_None)
  have 4: "fg = PNone \<longrightarrow>
            (\<exists>v. getpath theme [''Label'', ''normal'', ''foreground''] = Inr v
                 \<and> foreground L = Color v)"
    using fgc by (simp split: if_splits)
  have 5: "bg = PNone \<longrightarrow>
            (\<exists>v. getpath theme [''Label'', ''normal'', ''background''] = Inr v
                 \<and> background L = Color v)"
    using bgc by (simp split: if_splits)
  have 6: "kw ''hovercolor'' = None \<longrightarrow>
            (\<exists>v. getpath theme [''Label'', ''hovered'', ''foreground''] = Inr v
                 \<and> hovercolor L = Color v)"
    using hc by (simp add: dict_get_None)
  have 7: "kw ''hoverbackground'' = None \<longrightarrow>
            (\<exists>v. getpath theme [''Label'', ''hovered'', ''background''] = Inr v
                 \<and> hoverbackground L = Color v)"
    using hb by (simp add: dict_get_None)
  from 1 2 3 4 5 6 7 show ?thesis by (intro conjI)
qed

lemma example_theme_paths:
  "getpath example_theme [''Label'', ''border_radius''] = Inr (PInt 5)"
  "getpath example_theme [''Label'', ''borderwidth''] = Inr (PInt 2)"
  "getpath example_theme [''Label'', ''bordercolor''] = Inr (PStr ''black'')"
  "getpath example_theme [''Label'', ''normal'', ''border_radius''] = Inr (PInt 9)"
  "getpath example_theme [''Label'', ''normal'', ''bordercolor''] = Inr (PStr ''red'')"
  "getpath example_theme [''Label'', ''normal'', ''foreground''] = Inr (PStr ''white'')"
  "getpath example_theme [''Label'', ''normal'', ''background''] = Inr (PStr ''blue'')"
  "getpath example_theme [''Label'', ''hovered'', ''foreground''] = Inr (PStr ''yellow'')"
  "getpath example_theme [''Label'', ''hovered'', ''background''] = Inr (PStr ''navy'')"
  "getpath example_theme [''font'', ''family''] = Inr (PStr ''Arial'')"
  "getpath example_theme [''font'', ''size''] = Inr (PInt 16)"
  by (simp_all add: example_theme_def)

theorem init_defaults_from_theme_witness:
  "Label_init example_theme example_base (Surface 0) (PInt 200) (PInt 40) (PStr ''My Label'')
     PNone PNone PNone PNone Map.empty = Inr example_label
   \<and> getpath example_theme [''Label'', ''border_radius''] = Inr (border_radius example_label)
   \<and> getpath example_theme [''Label'', ''borderwidth''] = Inr (borderwidth example_label)
   \<and> (\<exists>v. getpath example_theme [''Label'', ''bordercolor''] = Inr v
          \<and> bordercolor example_label = Color v)
   \<and> (\<exists>v. getpath example_theme [''Label'', ''normal'', ''foreground''] = Inr v
          \<and> foreground example_label = Color v)
   \<and> (\<exists>v. getpath example_theme [''Label'', ''normal'', ''background''] = Inr v
          \<and> background example_label = Color v)
   \<and> (\<exists>v. getpath example_theme [''Label'', ''hovered'', ''foreground''] = Inr v
          \<and> hovercolor example_label = Color v)
   \<and> (\<exists>v. getpath example_theme [''Label'', ''hovered'', ''background''] = Inr v
          \<and> hoverbackground example_label = Color v)"
  using init_defaults_from_theme [OF example_label_constructed] example_label_constructed
  by simp

theorem init_border_from_normal_counterexample:
  "Label_init example_theme example_base (Surface 0) (PInt 200) (PInt 40) (PStr ''My Label'')
     PNone PNone PNone PNone Map.empty = Inr example_label
   \<and> getpath example_theme [''Label'', ''normal'', ''border_radius''] = Inr (PInt 9)
   \<and> border_radius example_label = PInt 5
   \<and> getpath example_theme [''Label'', ''normal'', ''border_radius'']
       \<noteq> Inr (border_radius example_label)
   \<and> getpath example_theme [''Label'', ''normal'', ''bordercolor''] = Inr (PStr ''red'')
   \<and> bordercolor example_label = Color (PStr ''black'')"
proof -
  have fields: "border_radius example_label = PInt 5"
    "bordercolor example_label = Color (PStr ''black'')"
    by (simp_all add: example_label_def)
  show ?thesis
    unfolding fields example_theme_paths
    by (simp add: example_label_constructed)
qed

section \<open>The state field over a Label's life\<close>

lemma state_configure_set_label:
  "state (fst (configure_set_label kw L)) = dict_get ''state'' (state L) kw"
  by (simp add: configure_set_label_eq)

lemma font_configure_set_label:
  "font (fst (configure_set_label kw L)) = dict_get ''font'' (font L) kw"
  by (simp add: configure_set_label_eq)

lemma example_label_state_override:
  "Label_init example_theme example_base (Surface 0) (PInt 200) (PInt 40) (PStr ''My Label'')
     PNone PNone PNone PNone (Map.empty(''state'' \<mapsto> PStr ''disabled''))
   = Inr (example_label\<lparr>state := PStr ''disabled''\<rparr>)"
  by (simp add: Label_init_def example_theme_def example_base_def example_label_def
      dict_pop_def then_with_def)

text \<open>
  C6. Without a constructor override the initial state is "normal"; with one it is the
  value given, whatever that is. The per-tick update always leaves the state at
  "normal" or "hovered". The other writers of the field store what they are given:
  \<^verbatim>\<open>_set_state_(s)\<close> with an explicit \<open>s\<close>, and configure-set when the mapping carries
  "state"; a configure-set without that name leaves the state as it was.
\<close>

theorem state_writers:
  "(Label_init theme base_init m w h t f i bg fg kw = Inr L \<longrightarrow>
      state L = (case kw ''state'' of None \<Rightarrow> PStr ''normal'' | Some v \<Rightarrow> v))
   \<and> state (perform_update delta M) \<in> {PStr ''normal'', PStr ''hovered''}
   \<and> (s \<noteq> PNone \<longrightarrow> state (set_state s M) = s)
   \<and> state (fst (configure_set_label kw' M))
       = (case kw' ''state'' of None \<Rightarrow> state M | Some v \<Rightarrow> v)"
proof (intro conjI impI)
  assume "Label_init theme base_init m w h t f i bg fg kw = Inr L"
  then have "state L = dict_get ''state'' (PStr ''normal'') kw"
    by (rule Label_init_Inr)
  then show "state L = (case kw ''state'' of None \<Rightarrow> PStr ''normal'' | Some v \<Rightarrow> v)"
    by (simp add: dict_get_def)
next
  show "state (perform_update delta M) \<in> {PStr ''normal'', PStr ''hovered''}"
    by (simp add: perform_update_def set_state_def)
next
  assume "s \<noteq> PNone"
  then show "state (set_state s M) = s"
    by (simp add: set_state_def)
next
  show "state (fst (configure_set_label kw' M))
       = (case kw' ''state'' of None \<Rightarrow> state M | Some v \<Rightarrow> v)"
    by (simp add: state_configure_set_label dict_get_def)
qed

theorem state_writers_witness:
  "Label_init example_theme example_base (Surface 0) (PInt 200) (PInt 40) (PStr ''My Label'')
     PNone PNone PNone PNone Map.empty = Inr example_label
   \<and> state example_label = PStr ''normal''
   \<and> PStr ''forced'' \<noteq> PNone
   \<and> state (set_state (PStr ''forced'') example_label) = PStr ''forced''
   \<and> state (perform_update () (set_state (PStr ''forced'') example_label)) = PStr ''normal''"
proof -
  note w = state_writers [of example_theme example_base "Surface 0" "PInt 200" "PInt 40"
      "PStr ''My Label''" PNone PNone PNone PNone Map.empty example_label
      "()" "set_state (PStr ''forced'') example_label" "PStr ''forced''" Map.empty]
  have upd: "state (perform_update () (set_state (PStr ''forced'') example_label))
      = PStr ''normal''"
    by (simp add: perform_update_def set_state_def example_label_def)
  have forced: "state (set_state (PStr ''forced'') example_label) = PStr ''forced''"
    by (simp add: set_state_def)
  from w example_label_constructed upd forced show ?thesis
    by simp
qed

theorem state_confined_counterexample:
  "state example_label = PStr ''normal''
   \<and> state (fst (configure_set_label (Map.empty(''state'' \<mapsto> PStr ''hovered'')) example_label))
       = PStr ''hovered''
   \<and> state (fst (configure_set_label (Map.empty(''state'' \<mapsto> PStr ''disabled'')) example_label))
       = PStr ''disabled''
   \<and> PStr ''disabled'' \<notin> {PStr ''normal'', PStr ''hovered''}
   \<and> Label_init example_theme example_base (Surface 0) (PInt 200) (PInt 40) (PStr ''My Label'')
        PNone PNone PNone PNone (Map.empty(''state'' \<mapsto> PStr ''disabled''))
       = Inr (example_label\<lparr>state := PStr ''disabled''\<rparr>)"
proof -
  have "state example_label = PStr ''normal''"
    by (simp add: example_label_def)
  then show ?thesis
    by (simp add: state_configure_set_label dict_get_def example_label_state_override)
qed

section \<open>The font field\<close>

text \<open>
  C10. Right after a successful construction the font field is not None: it is the font
  argument when one is given, and otherwise a system font built from the theme's global
  font family and size, which has a render method. The per-tick update and
  \<^verbatim>\<open>_set_state_\<close> keep the field; configure-set keeps it unless the mapping carries "font",
  and then stores the value given, whatever it is.
\<close>

theorem font_after_construction:
  assumes "Label_init theme base_init m w h t f i bg fg kw = Inr L"
  shows "font L \<noteq> PNone
     \<and> (f = PNone \<longrightarrow>
          is_font (font L)
          \<and> (\<exists>family size. getpath theme [''font'', ''family''] = Inr family
                \<and> getpath theme [''font'', ''size''] = Inr size
                \<and> font L = SysFont family size))
     \<and> (f \<noteq> PNone \<longrightarrow> font L = f)
     \<and> font (perform_update delta L) = font L
     \<and> font (set_state s L) = font L
     \<and> font (fst (configure_set_label kw' L))
         = (case kw' ''font'' of None \<Rightarrow> font L | Some v \<Rightarrow> v)"
proof -
  from assms obtain family size where
      fam: "getpath theme [''font'', ''family''] = Inr family"
    and sz: "getpath theme [''font'', ''size''] = Inr size"
    and fnt: "font L = (if f = PNone then SysFont family size else f)"
    by (rule Label_init_Inr)
  have nonnull: "font L \<noteq> PNone"
    by (simp add: fnt)
  have omitted: "f = PNone \<longrightarrow>
          is_font (font L)
          \<and> (\<exists>family size. getpath theme [''font'', ''family''] = Inr family
                \<and> getpath theme [''font'', ''size''] = Inr size
                \<and> font L = SysFont family size)"
    using fam sz by (simp add: fnt)
  have given: "f \<noteq> PNone \<longrightarrow> font L = f"
    by (simp add: fnt)
  have upd: "font (perform_update delta L) = font L" "font (set_state s L) = font L"
    by (simp_all add: perform_update_def set_state_def)
  have conf: "font (fst (configure_set_label kw' L))
         = (case kw' ''font'' of None \<Rightarrow> font L | Some v \<Rightarrow> v)"
    by (simp add: font_configure_set_label dict_get_def)
  from nonnull omitted given upd conf show ?thesis
    by (intro conjI)
qed

lemma example_label_font_given:
  "Label_init example_theme example_base (Surface 0) (PInt 200) (PInt 40) (PStr ''My Label'')
     (Font 3) PNone PNone PNone Map.empty = Inr (example_label\<lparr>font := Font 3\<rparr>)"
  by (simp add: Label_init_def example_theme_def example_base_def example_label_def
      dict_pop_def then_with_def)

theorem font_after_construction_witness:
  "Label_init example_theme example_base (Surface 0) (PInt 200) (PInt 40) (PStr ''My Label'')
     PNone PNone PNone PNone Map.empty = Inr example_label
   \<and> font example_label \<noteq> PNone
   \<and> is_font (font example_label)
   \<and> Label_init example_theme example_base (Surface 0) (PInt 200) (PInt 40) (PStr ''My Label'')
       (Font 3) PNone PNone PNone Map.empty = Inr (example_label\<lparr>font := Font 3\<rparr>)
   \<and> Font 3 \<noteq> PNone
   \<and> font (example_label\<lparr>font := Font 3\<rparr>) = Font 3"
proof -
  note omitted = font_after_construction [OF example_label_constructed, of "()" PNone Map.empty]
  note given = font_after_construction [OF example_label_font_given, of "()" PNone Map.empty]
  from omitted have a: "font example_label \<noteq> PNone" and b: "is_font (font example_label)"
    by simp_all
  from given have c: "font (example_label\<lparr>font := Font 3\<rparr>) = Font 3"
    by simp
  from a b c example_label_constructed example_label_font_given show ?thesis
    by simp
qed

theorem font_never_null_counterexample:
  "Label_init example_theme example_base (Surface 0) (PInt 200) (PInt 40) (PStr ''My Label'')
     PNone PNone PNone PNone Map.empty = Inr example_label
   \<and> font (fst (configure_set_label (Map.empty(''font'' \<mapsto> PNone)) example_label)) = PNone
   \<and> perform_draw example_render PNone
        (fst (configure_set_label (Map.empty(''font'' \<mapsto> PNone)) example_label))
       = ([Draw_rect (Surface 0) (Color (PStr ''blue'')) (Rect 0 0 200 40) None (PInt 5),
           Draw_rect (Surface 0) (Color (PStr ''black'')) (Rect 0 0 200 40) (Some (PInt 2))
             (PInt 5)],
          Some AttributeError)"
proof -
  have null: "font (fst (configure_set_label (Map.empty(''font'' \<mapsto> PNone)) example_label))
      = PNone"
    by (simp add: font_configure_set_label dict_get_def)
  have conf: "fst (configure_set_label (Map.empty(''font'' \<mapsto> PNone)) example_label)
      = example_label\<lparr>font := PNone\<rparr>"
    by (simp add: configure_set_label_eq dict_get_def)
  have draw: "perform_draw example_render PNone (example_label\<lparr>font := PNone\<rparr>)
       = ([Draw_rect (Surface 0) (Color (PStr ''blue'')) (Rect 0 0 200 40) None (PInt 5),
           Draw_rect (Surface 0) (Color (PStr ''black'')) (Rect 0 0 200 40) (Some (PInt 2))
             (PInt 5)],
          Some AttributeError)"
    by (simp add: perform_draw_def example_label_def get_state_background_def
        get_state_foreground_def)
  from null draw example_label_constructed show ?thesis
    unfolding conf by simp
qed

end
